theory Spec2Isabelle
  imports Complex_Main "HOL-Library.Char_ord" "HOL-Library.List_Lexorder"
    "HOL-Library.Product_Lexorder" "HOL-Library.Multiset"
begin

section \<open>The deals HTTP layer (routes, controller, service)\<close>

subsection \<open>Values exchanged with the remote client\<close>

text \<open>
  A JavaScript value as far as the deals layer handles one: JSON data, and
  \<^verbatim>\<open>undefined\<close>. It stands for everything the TypeScript types leave to run time: the
  request body (\<^verbatim>\<open>dealData: any\<close>) and whatever a promise of the HubSpot client resolves
  to. The declared type of an answer is not checked at run time, so an answer is any
  value. The fields of an object have distinct names.
\<close>

datatype json =
    JUndefined
  | JNull
  | JBool bool
  | JNum int
  | JStr string
  | JArr "json list"
  | JObj "(string \<times> json) list"

type_synonym deal = json

text \<open>
  A route parameter read from \<^verbatim>\<open>req.params\<close> is a string, or JavaScript's
  \<^verbatim>\<open>undefined\<close> (\<open>None\<close>) when the request carries no parameter of that name.
\<close>

type_synonym jsparam = "string option"

text \<open>The object literal built in \<^verbatim>\<open>getDealsByPipeline\<close>.\<close>

record search_filter =
  propertyName :: string
  operator :: string
  filterValue :: jsparam

record filter_group =
  filters :: "search_filter list"

record search_request =
  filterGroups :: "filter_group list"

text \<open>The object literal \<^verbatim>\<open>{ properties: dealData }\<close> passed to create and update.\<close>

record deal_input =
  properties :: json

text \<open>
  What a \<^verbatim>\<open>catch (error)\<close> of the service can catch: the rejection of a promise of the
  client, with the client's error, or the TypeError that JavaScript throws when a
  property of \<^verbatim>\<open>undefined\<close> or \<^verbatim>\<open>null\<close> is read.
\<close>

datatype 'e thrown = Rejection 'e | TypeError

text \<open>
  The expression \<^verbatim>\<open>apiResponse.results\<close>. Reading the property of \<^verbatim>\<open>undefined\<close> or
  \<^verbatim>\<open>null\<close> throws; an object gives the value of its field \<^verbatim>\<open>results\<close>, or
  \<^verbatim>\<open>undefined\<close> when it has none; every other value, an array among them, has no such
  property and gives \<^verbatim>\<open>undefined\<close>.
\<close>

fun results :: "json \<Rightarrow> 'e thrown + json" where
  "results JUndefined = Inl TypeError"
| "results JNull = Inl TypeError"
| "results (JObj fs) = Inr (case map_of fs ''results'' of Some v \<Rightarrow> v | None \<Rightarrow> JUndefined)"
| "results (JBool b) = Inr JUndefined"
| "results (JNum n) = Inr JUndefined"
| "results (JStr s) = Inr JUndefined"
| "results (JArr vs) = Inr JUndefined"

text \<open>
  The HubSpot client is an external collaborator, so it is a parameter of the model.
  Awaiting one of its promises either rejects with an error (\<open>Inl\<close>) or resolves to a
  value (\<open>Inr\<close>), and may change the remote CRM, whose state \<open>'r\<close> is threaded through.
  The type \<open>'e\<close> of the client's errors is left open.
\<close>

type_synonym ('e, 'r) promise = "'r \<Rightarrow> ('e + json) \<times> 'r"

record ('e, 'r) client =
  getAll :: "('e, 'r) promise"
  doSearch :: "search_request \<Rightarrow> ('e, 'r) promise"
  getById :: "jsparam \<Rightarrow> ('e, 'r) promise"
  create :: "deal_input \<Rightarrow> ('e, 'r) promise"
  update :: "jsparam \<Rightarrow> deal_input \<Rightarrow> ('e, 'r) promise"

text \<open>
  What a handler can change outside itself: the lines written by \<^verbatim>\<open>console.error\<close>
  (message and logged error) and the remote CRM.
\<close>

record ('e, 'r) world =
  console :: "(string \<times> 'e thrown) list"
  remote :: 'r

definition console_error :: "string \<Rightarrow> 'e thrown \<Rightarrow> ('e, 'r) world \<Rightarrow> ('e, 'r) world" where
  "console_error msg err w = w\<lparr>console := console w @ [(msg, err)]\<rparr>"

text \<open>A value inside a template literal: \<^verbatim>\<open>`${dealId}`\<close>.\<close>

definition template :: "jsparam \<Rightarrow> string" where
  "template p = (case p of Some s \<Rightarrow> s | None \<Rightarrow> ''undefined'')"

subsection \<open>DealsService\<close>

text \<open>
  Every method is \<^verbatim>\<open>try { ... await client call ... } catch (error) { console.error(msg, error);
  throw error; }\<close>: the result is what was thrown (\<open>Inl\<close>) or the returned value. The two
  list methods read \<^verbatim>\<open>apiResponse.results\<close> inside the \<^verbatim>\<open>try\<close>.
\<close>

type_synonym ('e, 'r) service_result = "('e thrown + json) \<times> ('e, 'r) world"

definition DealsService_getAllDeals ::
  "('e, 'r) client \<Rightarrow> ('e, 'r) world \<Rightarrow> ('e, 'r) service_result" where
  "DealsService_getAllDeals c w =
     (case getAll c (remote w) of
        (Inr apiResponse, r) \<Rightarrow>
          (case results apiResponse of
             Inr v \<Rightarrow> (Inr v, w\<lparr>remote := r\<rparr>)
           | Inl error \<Rightarrow>
               (Inl error, console_error ''Error fetching deals:'' error (w\<lparr>remote := r\<rparr>)))
      | (Inl e, r) \<Rightarrow>
          (Inl (Rejection e),
           console_error ''Error fetching deals:'' (Rejection e) (w\<lparr>remote := r\<rparr>)))"

definition DealsService_getDealsByPipeline ::
  "('e, 'r) client \<Rightarrow> jsparam \<Rightarrow> ('e, 'r) world \<Rightarrow> ('e, 'r) service_result" where
  "DealsService_getDealsByPipeline c pipelineId w =
     (let filter = \<lparr>filterGroups = [\<lparr>filters =
            [\<lparr>propertyName = ''pipeline'', operator = ''EQ'', filterValue = pipelineId\<rparr>]\<rparr>]\<rparr>
      in case doSearch c filter (remote w) of
           (Inr apiResponse, r) \<Rightarrow>
             (case results apiResponse of
                Inr v \<Rightarrow> (Inr v, w\<lparr>remote := r\<rparr>)
              | Inl error \<Rightarrow>
                  (Inl error,
                   console_error ''Error fetching deals by pipeline:'' error (w\<lparr>remote := r\<rparr>)))
         | (Inl e, r) \<Rightarrow>
             (Inl (Rejection e),
              console_error ''Error fetching deals by pipeline:'' (Rejection e)
                (w\<lparr>remote := r\<rparr>)))"

definition DealsService_getDealById ::
  "('e, 'r) client \<Rightarrow> jsparam \<Rightarrow> ('e, 'r) world \<Rightarrow> ('e, 'r) service_result" where
  "DealsService_getDealById c dealId w =
     (case getById c dealId (remote w) of
        (Inr d, r) \<Rightarrow> (Inr d, w\<lparr>remote := r\<rparr>)
      | (Inl e, r) \<Rightarrow>
          (Inl (Rejection e),
           console_error (''Error fetching deal '' @ template dealId @ '':'') (Rejection e)
             (w\<lparr>remote := r\<rparr>)))"

definition DealsService_createDeal ::
  "('e, 'r) client \<Rightarrow> json \<Rightarrow> ('e, 'r) world \<Rightarrow> ('e, 'r) service_result" where
  "DealsService_createDeal c dealData w =
     (case create c \<lparr>properties = dealData\<rparr> (remote w) of
        (Inr d, r) \<Rightarrow> (Inr d, w\<lparr>remote := r\<rparr>)
      | (Inl e, r) \<Rightarrow>
          (Inl (Rejection e),
           console_error ''Error creating deal:'' (Rejection e) (w\<lparr>remote := r\<rparr>)))"

definition DealsService_updateDeal ::
  "('e, 'r) client \<Rightarrow> jsparam \<Rightarrow> json \<Rightarrow> ('e, 'r) world \<Rightarrow> ('e, 'r) service_result" where
  "DealsService_updateDeal c dealId dealData w =
     (case update c dealId \<lparr>properties = dealData\<rparr> (remote w) of
        (Inr d, r) \<Rightarrow> (Inr d, w\<lparr>remote := r\<rparr>)
      | (Inl e, r) \<Rightarrow>
          (Inl (Rejection e),
           console_error (''Error updating deal '' @ template dealId @ '':'') (Rejection e)
             (w\<lparr>remote := r\<rparr>)))"

subsection \<open>DealsController\<close>

text \<open>
  The parts of Express's request and response the handlers touch. A fresh response has
  status 200 and nothing sent; \<^verbatim>\<open>res.status(c)\<close> sets the status and
  \<^verbatim>\<open>res.json(v)\<close> sends \<open>v\<close>. \<open>sent\<close> holds the value given to \<^verbatim>\<open>res.json\<close>:
  \<open>Some JUndefined\<close> is a response that was sent with an empty body, since
  \<^verbatim>\<open>undefined\<close> has no JSON text.
\<close>

record request =
  params :: "(string \<times> string) list"
  body :: json

record response =
  statusCode :: nat
  sent :: "json option"

definition new_response :: response where
  "new_response = \<lparr>statusCode = 200, sent = None\<rparr>"

definition res_status :: "nat \<Rightarrow> response \<Rightarrow> response" where
  "res_status code res = res\<lparr>statusCode := code\<rparr>"

definition res_json :: "json \<Rightarrow> response \<Rightarrow> response" where
  "res_json v res = res\<lparr>sent := Some v\<rparr>"

definition req_param :: "request \<Rightarrow> string \<Rightarrow> jsparam" where
  "req_param req name = map_of (params req) name"

definition error_body :: "string \<Rightarrow> json" where
  "error_body msg = JObj [(''error'', JStr msg)]"

type_synonym ('e, 'r) handler_fun =
  "('e, 'r) client \<Rightarrow> request \<Rightarrow> ('e, 'r) world \<times> response \<Rightarrow> ('e, 'r) world \<times> response"

definition DealsController_getAllDeals :: "('e, 'r) handler_fun" where
  "DealsController_getAllDeals c req = (\<lambda>(w, res).
     case DealsService_getAllDeals c w of
       (Inr deals, w') \<Rightarrow> (w', res_json deals res)
     | (Inl error, w') \<Rightarrow>
         (w', res_json (error_body ''Failed to fetch deals'') (res_status 500 res)))"

definition DealsController_getDealsByPipeline :: "('e, 'r) handler_fun" where
  "DealsController_getDealsByPipeline c req = (\<lambda>(w, res).
     let pipelineId = req_param req ''pipelineId'' in
     case DealsService_getDealsByPipeline c pipelineId w of
       (Inr deals, w') \<Rightarrow> (w', res_json deals res)
     | (Inl error, w') \<Rightarrow>
         (w', res_json (error_body ''Failed to fetch deals by pipeline'') (res_status 500 res)))"

definition DealsController_getDealById :: "('e, 'r) handler_fun" where
  "DealsController_getDealById c req = (\<lambda>(w, res).
     let dealId = req_param req ''dealId'' in
     case DealsService_getDealById c dealId w of
       (Inr d, w') \<Rightarrow> (w', res_json d res)
     | (Inl error, w') \<Rightarrow>
         (w', res_json (error_body (''Failed to fetch deal '' @ template (req_param req ''dealId'')))
                (res_status 500 res)))"

definition DealsController_createDeal :: "('e, 'r) handler_fun" where
  "DealsController_createDeal c req = (\<lambda>(w, res).
     let dealData = body req in
     case DealsService_createDeal c dealData w of
       (Inr newDeal, w') \<Rightarrow> (w', res_json newDeal (res_status 201 res))
     | (Inl error, w') \<Rightarrow>
         (w', res_json (error_body ''Failed to create deal'') (res_status 500 res)))"

definition DealsController_updateDeal :: "('e, 'r) handler_fun" where
  "DealsController_updateDeal c req = (\<lambda>(w, res).
     let dealId = req_param req ''dealId''; dealData = body req in
     case DealsService_updateDeal c dealId dealData w of
       (Inr updatedDeal, w') \<Rightarrow> (w', res_json updatedDeal res)
     | (Inl error, w') \<Rightarrow>
         (w', res_json (error_body (''Failed to update deal '' @ template (req_param req ''dealId'')))
                (res_status 500 res)))"

subsection \<open>The deals router\<close>

text \<open>
  The router holds its routes in registration order. Express is not among the sources;
  what follows is its matching of a request against such a list, for the patterns the
  five routes use: a pattern is a list of segments, each a literal or a named
  parameter \<^verbatim>\<open>:name\<close>. A path is the part of the URL path below the mount point
  \<^verbatim>\<open>/deals\<close>; it starts with a slash.
\<close>

datatype http_method = GET | POST | PUT | DELETE

datatype segment = Lit string | Param string

datatype handler = GetAllDeals | GetDealsByPipeline | GetDealById | CreateDeal | UpdateDeal

type_synonym route = "http_method \<times> segment list \<times> handler"

definition router :: "route list" where
  "router =
    [(GET, [], GetAllDeals),
     (GET, [Lit ''pipeline'', Param ''pipelineId''], GetDealsByPipeline),
     (GET, [Param ''dealId''], GetDealById),
     (POST, [], CreateDeal),
     (PUT, [Param ''dealId''], UpdateDeal)]"

text \<open>The same routes with \<^verbatim>\<open>/:dealId\<close> registered before \<^verbatim>\<open>/pipeline/:pipelineId\<close>.\<close>

definition router_dealId_first :: "route list" where
  "router_dealId_first =
    [(GET, [], GetAllDeals),
     (GET, [Param ''dealId''], GetDealById),
     (GET, [Lit ''pipeline'', Param ''pipelineId''], GetDealsByPipeline),
     (POST, [], CreateDeal),
     (PUT, [Param ''dealId''], UpdateDeal)]"

text \<open>The pieces of a path between its slashes: \<^verbatim>\<open>/a/b/\<close> gives the four pieces \<open>[[], a, b, []]\<close>.\<close>

fun split_slash :: "string \<Rightarrow> string list" where
  "split_slash [] = [[]]"
| "split_slash (c # cs) =
     (if c = CHR ''/'' then [] # split_slash cs
      else (case split_slash cs of
              [] \<Rightarrow> [[c]]
            | s # ss \<Rightarrow> (c # s) # ss))"

text \<open>Literals match without regard to the case of the letters A to Z.\<close>

definition lower :: "char \<Rightarrow> char" where
  "lower c =
     (case map_of (zip ''ABCDEFGHIJKLMNOPQRSTUVWXYZ'' ''abcdefghijklmnopqrstuvwxyz'') c of
        Some l \<Rightarrow> l
      | None \<Rightarrow> c)"

text \<open>
  A pattern against the pieces after the leading slash. A literal takes one piece equal
  to it up to case, a parameter binds one non-empty piece, and at the end of the
  pattern one trailing slash (a last, empty piece) is let pass.
\<close>

fun match_segments :: "segment list \<Rightarrow> string list \<Rightarrow> (string \<times> string) list option" where
  "match_segments [] ss = (if ss = [] \<or> ss = [[]] then Some [] else None)"
| "match_segments (Lit l # ps) (s # ss) =
     (if map lower l = map lower s then match_segments ps ss else None)"
| "match_segments (Param n # ps) (s # ss) =
     (if s = [] then None else map_option (\<lambda>bs. (n, s) # bs) (match_segments ps ss))"
| "match_segments (p # ps) [] = None"

definition match_path :: "segment list \<Rightarrow> string \<Rightarrow> (string \<times> string) list option" where
  "match_path pat path =
     (case split_slash path of
        [] \<Rightarrow> None
      | s # ss \<Rightarrow> (if s = [] then match_segments pat ss else None))"

text \<open>
  The values bound to parameters are percent-decoded with JavaScript's
  \<^verbatim>\<open>decodeURIComponent\<close>, a parameter \<open>dec\<close> of the model; it fails (\<open>None\<close>) on a
  malformed escape.
\<close>

fun decode_params ::
  "(string \<Rightarrow> string option) \<Rightarrow> (string \<times> string) list \<Rightarrow> (string \<times> string) list option" where
  "decode_params dec [] = Some []"
| "decode_params dec ((n, v) # bs) =
     (case dec v of
        None \<Rightarrow> None
      | Some v' \<Rightarrow> map_option (\<lambda>ds. (n, v') # ds) (decode_params dec bs))"

text \<open>
  Where a request ends up: with no route (Express goes on to answer 404), with a
  parameter that does not decode (Express answers 400 and runs no handler), or at a
  handler with the decoded parameters.
\<close>

datatype 'a routed = Unrouted | DecodeFailed | Routed 'a

text \<open>
  The routes are tried in order. A route whose pattern matches the path has its
  parameters decoded, whatever its method; a failure to decode is kept (\<open>failed\<close>) and
  from then on no route is taken. Otherwise the first route that matches the path and
  has the method of the request is taken.
\<close>

fun dispatch ::
  "(string \<Rightarrow> string option) \<Rightarrow> route list \<Rightarrow> bool \<Rightarrow> http_method \<Rightarrow> string
     \<Rightarrow> (handler \<times> (string \<times> string) list) routed" where
  "dispatch dec [] failed m path = (if failed then DecodeFailed else Unrouted)"
| "dispatch dec ((m', pat, h) # rs) failed m path =
     (case match_path pat path of
        None \<Rightarrow> dispatch dec rs failed m path
      | Some raw \<Rightarrow>
          (case decode_params dec raw of
             None \<Rightarrow> dispatch dec rs True m path
           | Some bs \<Rightarrow>
               (if \<not> failed \<and> m' = m then Routed (h, bs)
                else dispatch dec rs failed m path)))"

definition run_handler :: "handler \<Rightarrow> ('e, 'r) handler_fun" where
  "run_handler h =
     (case h of
        GetAllDeals \<Rightarrow> DealsController_getAllDeals
      | GetDealsByPipeline \<Rightarrow> DealsController_getDealsByPipeline
      | GetDealById \<Rightarrow> DealsController_getDealById
      | CreateDeal \<Rightarrow> DealsController_createDeal
      | UpdateDeal \<Rightarrow> DealsController_updateDeal)"

text \<open>One request to the router, answered on a fresh response when a handler takes it.\<close>

definition serve ::
  "('e, 'r) client \<Rightarrow> (string \<Rightarrow> string option) \<Rightarrow> http_method \<Rightarrow> string \<Rightarrow> json
     \<Rightarrow> ('e, 'r) world \<Rightarrow> (('e, 'r) world \<times> response) routed" where
  "serve c dec m path b w =
     (case dispatch dec router False m path of
        Unrouted \<Rightarrow> Unrouted
      | DecodeFailed \<Rightarrow> DecodeFailed
      | Routed (h, bs) \<Rightarrow> Routed (run_handler h c \<lparr>params = bs, body = b\<rparr> (w, new_response)))"

subsection \<open>A remote CRM for concrete runs\<close>

text \<open>
  Modelled from the spec: section 6, the distinguishable failures of a call to the
  remote CRM (authentication, rate limit, not found, transient network). The error
  type of the HubSpot client is not among the sources.
\<close>

datatype remote_failure = AuthFailure | RateLimited | ObjectNotFound | TransientNetwork


text \<open>
  A small client over a remote state that lists deals by id. As the HubSpot client
  does, its \<^verbatim>\<open>getAll\<close> resolves to the bare array of all deals, its search to an
  object with the matching deals under \<^verbatim>\<open>results\<close>, and a call for an id it does not
  hold rejects.
\<close>

fun json_field :: "string \<Rightarrow> json \<Rightarrow> json option" where
  "json_field k (JObj fs) = map_of fs k"
| "json_field k _ = None"

definition satisfies :: "deal \<Rightarrow> search_filter \<Rightarrow> bool" where
  "satisfies d f =
     (operator f = ''EQ'' \<and>
      (case filterValue f of
         None \<Rightarrow> False
       | Some v \<Rightarrow>
           (case json_field ''properties'' d of
              None \<Rightarrow> False
            | Some ps \<Rightarrow> json_field (propertyName f) ps = Some (JStr v))))"

definition fresh_id :: "(string \<times> deal) list \<Rightarrow> string" where
  "fresh_id r = ''deal-'' @ replicate (length r) (CHR ''i'')"

definition crm :: "(remote_failure, (string \<times> deal) list) client" where
  "crm =
    \<lparr>getAll = (\<lambda>r. (Inr (JArr (map snd r)), r)),
     doSearch = (\<lambda>q r.
       (Inr (JObj [(''total'', JNum (int (length r))),
                   (''results'',
                    JArr (filter (\<lambda>d. list_ex (\<lambda>g. list_all (satisfies d) (filters g)) (filterGroups q))
                           (map snd r)))]), r)),
     getById = (\<lambda>i r.
       case i of
         None \<Rightarrow> (Inl ObjectNotFound, r)
       | Some k \<Rightarrow> (case map_of r k of None \<Rightarrow> (Inl ObjectNotFound, r) | Some d \<Rightarrow> (Inr d, r))),
     create = (\<lambda>inp r.
       let d = JObj [(''id'', JStr (fresh_id r)), (''properties'', properties inp)]
       in (Inr d, r @ [(fresh_id r, d)])),
     update = (\<lambda>i inp r.
       case i of
         None \<Rightarrow> (Inl ObjectNotFound, r)
       | Some k \<Rightarrow>
           (case map_of r k of
              None \<Rightarrow> (Inl ObjectNotFound, r)
            | Some _ \<Rightarrow>
                (let d = JObj [(''id'', JStr k), (''properties'', properties inp)]
                 in (Inr d, map (\<lambda>(k', d'). if k' = k then (k', d) else (k', d')) r))))\<rparr>"

definition acme :: deal where
  "acme = JObj [(''id'', JStr ''42''),
                (''properties'', JObj [(''dealname'', JStr ''Acme''), (''pipeline'', JStr ''default'')])]"

definition crm0 :: "(remote_failure, (string \<times> deal) list) world" where
  "crm0 = \<lparr>console = [], remote = [(''42'', acme)]\<rparr>"

definition req0 :: request where
  "req0 = \<lparr>params = [(''dealId'', ''42''), (''pipelineId'', ''default'')],
           body = JObj [(''dealname'', JStr ''New'')]\<rparr>"

text \<open>The deal a create of \<open>req0\<close>'s body makes in \<open>crm0\<close>, and the deal an update of 42 leaves.\<close>

definition created :: deal where
  "created = JObj [(''id'', JStr ''deal-i''), (''properties'', JObj [(''dealname'', JStr ''New'')])]"

definition updated :: deal where
  "updated = JObj [(''id'', JStr ''42''), (''properties'', JObj [(''dealname'', JStr ''New'')])]"

text \<open>
  A stand-in for \<^verbatim>\<open>decodeURIComponent\<close> in concrete runs. The real function leaves a
  string without a percent sign as it is, and so does this one; a string with a percent
  sign is refused here, as the real function refuses the malformed ones (a lone
  \<^verbatim>\<open>%\<close> among them).
\<close>

definition decode_plain :: "string \<Rightarrow> string option" where
  "decode_plain s = (if CHR ''%'' \<in> set s then None else Some s)"

section \<open>The synchronized cache\<close>

text \<open>
  The key-value store, the vector index, the embedding cache and the refresh that keeps
  them in step are described by the specification; their definitions below follow its
  words. What lies outside the cache (the remote CRM, the embedding model, faults of
  the local stores) and what the specification leaves to configuration is gathered in
  one record of collaborators, a parameter of every operation.
\<close>

subsection \<open>Data model\<close>

text \<open>Modelled from the spec: section 3, the \<^verbatim>\<open>objectType\<close> enumeration of EntityRecord.\<close>

datatype ObjectType = Contact | Company | Deal | ConversationThread

text \<open>Modelled from the spec: the name of an object type as it appears in a storage key.\<close>

fun typeName :: "ObjectType \<Rightarrow> string" where
  "typeName Contact = ''contact''"
| "typeName Company = ''company''"
| "typeName Deal = ''deal''"
| "typeName ConversationThread = ''conversationThread''"

text \<open>
  Modelled from the spec: section 3 and section 6, the storage key
  \<^verbatim>\<open>{objectType}_{objectId}\<close>, which also addresses the entry of the vector index.
\<close>

definition storageKey :: "ObjectType \<Rightarrow> string \<Rightarrow> string" where
  "storageKey t i = typeName t @ ''_'' @ i"

text \<open>Modelled from the spec: a timestamp, counted in ticks of the clock.\<close>

type_synonym timestamp = nat

text \<open>Modelled from the spec: section 3, an embedding, a vector of numbers (reals here).\<close>

type_synonym vector = "real list"

text \<open>
  Modelled from the spec: section 3, EntityRecord. \<open>refreshedAt = None\<close> is the omitted
  timestamp that marks a record as pending reindex (section 4.4, step 3).
\<close>

record EntityRecord =
  objectType :: ObjectType
  objectId :: string
  entityProperties :: "(string \<times> string) list"
  refreshedAt :: "timestamp option"

text \<open>
  Modelled from the spec: section 3, VectorEntry; its metadata is the display subset of
  the properties together with \<^verbatim>\<open>refreshedAt\<close>.
\<close>

record VectorEntry =
  entryType :: ObjectType
  entryId :: string
  embedding :: vector
  sourceText :: string
  metadata :: "(string \<times> string) list"
  metadataRefreshedAt :: timestamp

text \<open>Modelled from the spec: section 7, the error taxonomy.\<close>

datatype CacheError =
  RemoteUnavailable | StorageIOError | NotFound | EmbeddingFailure | IndexCorruption

text \<open>
  Modelled from the spec: section 4.1, the KeyValueStore, a store of entity records
  ordered by key. It is the list of its entries in ascending key order.
\<close>

type_synonym KeyValueStore = "(string \<times> EntityRecord) list"

text \<open>
  Modelled from the spec: section 4.2, the VectorIndex, whose entries are addressed by
  the same composite id as the records; kept in ascending order of id.
\<close>

type_synonym VectorIndex = "(string \<times> VectorEntry) list"

text \<open>
  Modelled from the spec: section 3, EmbeddingCacheEntry, the memo from source text to
  embedding. The content hash is taken to be free of collisions, so a text stands for
  its own hash.
\<close>

type_synonym EmbeddingCache = "(string \<times> vector) list"

text \<open>
  Modelled from the spec: section 6, an entity as the remote collaborator returns it: an
  id and a raw property map.
\<close>

record RawEntity =
  rawId :: string
  rawProperties :: "(string \<times> string) list"

text \<open>
  Modelled from the spec: section 6 and section 4.4, what the cache consumes. \<open>fetchPage\<close>
  is the paged listing of the remote collaborator (object type and cursor to a page and
  the next cursor; \<open>None\<close> is a failed fetch); \<open>embeddingModel\<close> is the embedding function
  (\<open>None\<close> is an EmbeddingFailure); \<open>putFails\<close> and \<open>upsertFails\<close> tell for which key the
  local store or the index fails. \<open>sourceFields\<close> is the fixed subset of properties the
  source text is derived from, \<open>displayFields\<close> the subset kept as metadata,
  \<open>pageBudget\<close> the page-count budget of one refresh.
\<close>

record Collaborators =
  fetchPage :: "ObjectType \<Rightarrow> nat option \<Rightarrow> (RawEntity list \<times> nat option) option"
  embeddingModel :: "string \<Rightarrow> vector option"
  putFails :: "string \<Rightarrow> bool"
  upsertFails :: "string \<Rightarrow> bool"
  sourceFields :: "string list"
  displayFields :: "string list"
  pageBudget :: nat

subsection \<open>KeyValueStore and VectorIndex\<close>

text \<open>
  Modelled from the spec: the upsert of sections 4.1 and 4.2. An entry with the key is
  replaced where it stands; a new key is inserted at its place in the key order.
\<close>

fun overwrite :: "'k::linorder \<Rightarrow> 'v \<Rightarrow> ('k \<times> 'v) list \<Rightarrow> ('k \<times> 'v) list" where
  "overwrite k v [] = [(k, v)]"
| "overwrite k v ((k', v') # rest) =
     (if k = k' then (k, v) # rest
      else if k < k' then (k, v) # (k', v') # rest
      else (k', v') # overwrite k v rest)"

text \<open>
  Modelled from the spec: section 4.1, \<^verbatim>\<open>put(key, record)\<close>, an upsert that fails with
  StorageIOError on an I/O failure.
\<close>

definition KeyValueStore_put ::
  "Collaborators \<Rightarrow> string \<Rightarrow> EntityRecord \<Rightarrow> KeyValueStore \<Rightarrow> CacheError + KeyValueStore" where
  "KeyValueStore_put env key record store =
     (if putFails env key then Inl StorageIOError else Inr (overwrite key record store))"

text \<open>Modelled from the spec: section 4.1, \<^verbatim>\<open>get(key)\<close>, the record or NotFound.\<close>

definition KeyValueStore_get :: "string \<Rightarrow> KeyValueStore \<Rightarrow> CacheError + EntityRecord" where
  "KeyValueStore_get key store =
     (case map_of store key of None \<Rightarrow> Inl NotFound | Some r \<Rightarrow> Inr r)"

text \<open>Modelled from the spec: section 4.1, \<^verbatim>\<open>delete(key)\<close>, a no-op when the key is absent.\<close>

definition KeyValueStore_delete :: "string \<Rightarrow> KeyValueStore \<Rightarrow> KeyValueStore" where
  "KeyValueStore_delete key store = filter (\<lambda>(k, r). k \<noteq> key) store"

text \<open>
  Modelled from the spec: section 4.2, \<^verbatim>\<open>upsert(id, embedding, metadata)\<close>; \<open>None\<close> is a
  failed upsert (section 4.4, step 3).
\<close>

definition VectorIndex_upsert ::
  "Collaborators \<Rightarrow> string \<Rightarrow> VectorEntry \<Rightarrow> VectorIndex \<Rightarrow> VectorIndex option" where
  "VectorIndex_upsert env ident entry ix =
     (if upsertFails env ident then None else Some (overwrite ident entry ix))"

text \<open>Modelled from the spec: section 4.2, \<^verbatim>\<open>remove(id)\<close>.\<close>

definition VectorIndex_remove :: "string \<Rightarrow> VectorIndex \<Rightarrow> VectorIndex" where
  "VectorIndex_remove ident ix = filter (\<lambda>(k, e). k \<noteq> ident) ix"

text \<open>
  Modelled from the spec: the inner product behind the cosine similarity of section
  4.2, over the reals. It runs over the common prefix of the two vectors (all
  embeddings of one process have the same length). Division by the zero length of a
  zero vector gives 0 in HOL, so a zero vector has similarity 0 to every vector.
\<close>

definition dot :: "vector \<Rightarrow> vector \<Rightarrow> real" where
  "dot a b = sum_list (map (\<lambda>(x, y). x * y) (zip a b))"

text \<open>
  Modelled from the spec: section 4.2, the cosine similarity of two embeddings, their
  inner product over the product of their lengths.
\<close>

definition cosineSimilarity :: "vector \<Rightarrow> vector \<Rightarrow> real" where
  "cosineSimilarity a b = dot a b / (sqrt (dot a a) * sqrt (dot b b))"

text \<open>
  Modelled from the spec: section 4.2, the order of the answers of a query: higher
  similarity first, ties by the more recent \<^verbatim>\<open>refreshedAt\<close>, then by ascending id. The
  query sorts the index by this key, ascending.
\<close>

definition rankKey :: "vector \<Rightarrow> string \<times> VectorEntry \<Rightarrow> real \<times> int \<times> string" where
  "rankKey q a =
     (- cosineSimilarity q (embedding (snd a)), - int (metadataRefreshedAt (snd a)), fst a)"

text \<open>
  Modelled from the spec: section 4.2, \<^verbatim>\<open>query(embedding, k)\<close>: the first \<open>k\<close> entries in
  rank order, each with its similarity score.
\<close>

definition VectorIndex_query ::
  "vector \<Rightarrow> nat \<Rightarrow> VectorIndex \<Rightarrow> (string \<times> VectorEntry \<times> real) list" where
  "VectorIndex_query q k ix =
     map (\<lambda>(i, e). (i, e, cosineSimilarity q (embedding e))) (take k (sort_key (rankKey q) ix))"

subsection \<open>EmbeddingCache\<close>

text \<open>
  Modelled from the spec: section 4.3, \<^verbatim>\<open>embed(text)\<close>. A hit returns the stored vector
  without calling the model; a miss calls the model, stores its result and returns it.
  A failure of the model stores nothing.
\<close>

definition EmbeddingCache_embed ::
  "Collaborators \<Rightarrow> string \<Rightarrow> EmbeddingCache \<Rightarrow> vector option \<times> EmbeddingCache" where
  "EmbeddingCache_embed env text memo =
     (case map_of memo text of
        Some v \<Rightarrow> (Some v, memo)
      | None \<Rightarrow>
          (case embeddingModel env text of
             None \<Rightarrow> (None, memo)
           | Some v \<Rightarrow> (Some v, (text, v) # memo)))"

subsection \<open>RefreshOrchestrator\<close>

text \<open>Modelled from the spec: the three stores under one storage root (section 6).\<close>

record CacheState =
  kv :: KeyValueStore
  index :: VectorIndex
  cache :: EmbeddingCache

text \<open>Modelled from the spec: section 4.4, \<^verbatim>\<open>RefreshSummary{count, failures}\<close>.\<close>

record RefreshSummary =
  count :: nat
  failures :: nat

text \<open>
  Modelled from the spec: section 4.4, step 2, the concatenation that makes the source
  text: the values of the source fields joined by spaces.
\<close>

fun joinText :: "string list \<Rightarrow> string" where
  "joinText [] = []"
| "joinText [s] = s"
| "joinText (s # rest) = s @ '' '' @ joinText rest"

text \<open>
  Modelled from the spec: section 4.4, step 2, the source text of an entity, derived
  from the fixed subset of its properties in a stable order.
\<close>

definition deriveSourceText :: "Collaborators \<Rightarrow> (string \<times> string) list \<Rightarrow> string" where
  "deriveSourceText env props = joinText (List.map_filter (map_of props) (sourceFields env))"

text \<open>Modelled from the spec: section 3, the display subset of the properties.\<close>

definition deriveMetadata :: "Collaborators \<Rightarrow> (string \<times> string) list \<Rightarrow> (string \<times> string) list" where
  "deriveMetadata env props = filter (\<lambda>(name, v). name \<in> set (displayFields env)) props"

text \<open>
  Modelled from the spec: section 4.4, steps 2 and 3, for one entity, at the call time
  \<open>now\<close> of the refresh. The record is built and written; the source text is derived and
  embedded; the index is upserted. A failed write is a StorageIOError and aborts. A
  failed embedding is a failure of this entity only (\<open>Inr False\<close>). A failed upsert
  after the write marks the record as pending reindex and is a failure of this entity.
\<close>

definition refreshEntity ::
  "Collaborators \<Rightarrow> timestamp \<Rightarrow> ObjectType \<Rightarrow> RawEntity \<Rightarrow> CacheState
     \<Rightarrow> (CacheError + bool) \<times> CacheState" where
  "refreshEntity env now t raw st =
     (let record = \<lparr>objectType = t, objectId = rawId raw,
                    entityProperties = rawProperties raw, refreshedAt = Some now\<rparr>;
          key = storageKey t (rawId raw)
      in case KeyValueStore_put env key record (kv st) of
           Inl err \<Rightarrow> (Inl err, st)
         | Inr kv1 \<Rightarrow>
             (let text = deriveSourceText env (entityProperties record)
              in case EmbeddingCache_embed env text (cache st) of
                   (None, cache1) \<Rightarrow> (Inr False, st\<lparr>kv := kv1, cache := cache1\<rparr>)
                 | (Some v, cache1) \<Rightarrow>
                     (case VectorIndex_upsert env key
                             \<lparr>entryType = t, entryId = rawId raw, embedding = v, sourceText = text,
                              metadata = deriveMetadata env (entityProperties record),
                              metadataRefreshedAt = now\<rparr>
                             (index st) of
                        Some index1 \<Rightarrow>
                          (Inr True, st\<lparr>kv := kv1, index := index1, cache := cache1\<rparr>)
                      | None \<Rightarrow>
                          (case KeyValueStore_put env key (record\<lparr>refreshedAt := None\<rparr>) kv1 of
                             Inl err \<Rightarrow> (Inl err, st\<lparr>kv := kv1, cache := cache1\<rparr>)
                           | Inr kv2 \<Rightarrow> (Inr False, st\<lparr>kv := kv2, cache := cache1\<rparr>)))))"

text \<open>
  Modelled from the spec: section 4.4, step 2 over the entities of one page. Each
  entity counts; a failed entity also counts as a failure and the batch goes on; a
  storage error stops it.
\<close>

fun refreshEntities ::
  "Collaborators \<Rightarrow> timestamp \<Rightarrow> ObjectType \<Rightarrow> RawEntity list \<Rightarrow> RefreshSummary \<Rightarrow> CacheState
     \<Rightarrow> (CacheError option \<times> RefreshSummary) \<times> CacheState" where
  "refreshEntities env now t [] summary st = ((None, summary), st)"
| "refreshEntities env now t (raw # rest) summary st =
     (case refreshEntity env now t raw st of
        (Inl err, st1) \<Rightarrow> ((Some err, summary), st1)
      | (Inr ok, st1) \<Rightarrow>
          refreshEntities env now t rest
            (summary\<lparr>count := count summary + 1,
                     failures := failures summary + (if ok then 0 else 1)\<rparr>) st1)"

text \<open>
  Modelled from the spec: section 4.4, steps 1 and 4. Pages are fetched until the
  remote collaborator gives no next cursor or the page budget is used up. A failed
  fetch aborts the rest of the call with the partial summary; what was written stays.
\<close>

fun refreshPages ::
  "Collaborators \<Rightarrow> timestamp \<Rightarrow> ObjectType \<Rightarrow> nat \<Rightarrow> nat option \<Rightarrow> RefreshSummary \<Rightarrow> CacheState
     \<Rightarrow> (CacheError option \<times> RefreshSummary) \<times> CacheState" where
  "refreshPages env now t 0 cursor summary st = ((None, summary), st)"
| "refreshPages env now t (Suc budget) cursor summary st =
     (case fetchPage env t cursor of
        None \<Rightarrow> ((Some RemoteUnavailable, summary), st)
      | Some (entities, next) \<Rightarrow>
          (case refreshEntities env now t entities summary st of
             ((Some err, summary1), st1) \<Rightarrow> ((Some err, summary1), st1)
           | ((None, summary1), st1) \<Rightarrow>
               (case next of
                  None \<Rightarrow> ((None, summary1), st1)
                | Some c \<Rightarrow> refreshPages env now t budget (Some c) summary1 st1)))"

text \<open>
  Modelled from the spec: section 4.4, \<^verbatim>\<open>refresh(objectType, sinceCursor?)\<close>, called at
  time \<open>now\<close>. The result is the summary, with the error that cut the call short if one
  did, and the stores the call leaves.
\<close>

definition RefreshOrchestrator_refresh ::
  "Collaborators \<Rightarrow> timestamp \<Rightarrow> ObjectType \<Rightarrow> nat option \<Rightarrow> CacheState
     \<Rightarrow> (CacheError option \<times> RefreshSummary) \<times> CacheState" where
  "RefreshOrchestrator_refresh env now t sinceCursor st =
     refreshPages env now t (pageBudget env) sinceCursor \<lparr>count = 0, failures = 0\<rparr> st"

text \<open>
  Modelled from the spec: the explicit deletion of section 4.4, step 5, which removes
  the record and with it its vector entry (section 3, no orphans).
\<close>

definition deleteEntity :: "ObjectType \<Rightarrow> string \<Rightarrow> CacheState \<Rightarrow> CacheState" where
  "deleteEntity t i st =
     st\<lparr>kv := KeyValueStore_delete (storageKey t i) (kv st),
        index := VectorIndex_remove (storageKey t i) (index st)\<rparr>"

subsection \<open>QueryService\<close>

text \<open>Modelled from the spec: section 4.5, \<^verbatim>\<open>lookup(objectType, objectId)\<close>.\<close>

definition QueryService_lookup :: "ObjectType \<Rightarrow> string \<Rightarrow> CacheState \<Rightarrow> CacheError + EntityRecord" where
  "QueryService_lookup t i st = KeyValueStore_get (storageKey t i) (kv st)"

subsection \<open>Reachable states\<close>

text \<open>Modelled from the spec: the stores before the first refresh, all empty.\<close>

definition emptyState :: CacheState where
  "emptyState = \<lparr>kv = [], index = [], cache = []\<rparr>"

text \<open>
  Modelled from the spec: the lifecycle of section 3. The stores start empty; records
  and vector entries are written by refresh only and removed by the explicit deletion
  only; a semantic search embeds its query text and so may add to the embedding cache.
\<close>

inductive reachable :: "CacheState \<Rightarrow> bool" where
  initial: "reachable emptyState"
| refresh: "reachable st \<Longrightarrow> reachable (snd (RefreshOrchestrator_refresh env now t sinceCursor st))"
| delete: "reachable st \<Longrightarrow> reachable (deleteEntity t i st)"
| embed: "reachable st \<Longrightarrow> reachable (st\<lparr>cache := snd (EmbeddingCache_embed env text (cache st))\<rparr>)"

subsection \<open>Notions used to state the properties\<close>

text \<open>
  The rank order of a query in the words of the specification: \<open>a\<close> ranks before \<open>b\<close>
  when it is more similar to the query, or equally similar and refreshed more recently,
  or equal in both and not later by id.
\<close>

definition ranksBefore :: "vector \<Rightarrow> string \<times> VectorEntry \<Rightarrow> string \<times> VectorEntry \<Rightarrow> bool" where
  "ranksBefore q a b =
     (let sa = cosineSimilarity q (embedding (snd a)); sb = cosineSimilarity q (embedding (snd b));
          ta = metadataRefreshedAt (snd a); tb = metadataRefreshedAt (snd b)
      in sa > sb \<or> (sa = sb \<and> (ta > tb \<or> (ta = tb \<and> fst a \<le> fst b))))"

text \<open>The entries of a query's answer, without their scores.\<close>

definition hits :: "(string \<times> VectorEntry \<times> real) list \<Rightarrow> (string \<times> VectorEntry) list" where
  "hits result = map (\<lambda>(i, e, s). (i, e)) result"

text \<open>Every record is stored under the key of its own type and id.\<close>

definition keyed :: "KeyValueStore \<Rightarrow> bool" where
  "keyed store = list_all (\<lambda>(k, r). k = storageKey (objectType r) (objectId r)) store"

text \<open>Both stores are in strictly ascending key order, and the records are keyed.\<close>

definition wellFormed :: "CacheState \<Rightarrow> bool" where
  "wellFormed st =
     (sorted_wrt (<) (map fst (kv st)) \<and> keyed (kv st) \<and> sorted_wrt (<) (map fst (index st)))"







subsection \<open>A remote source and stores for concrete runs\<close>

text \<open>
  A remote collaborator with one company, Acme, on a single page, an embedding model
  that maps every text to the same unit vector, and no faults.
\<close>

definition acmeRemote :: Collaborators where
  "acmeRemote =
     \<lparr>fetchPage = (\<lambda>t c. if t = Company \<and> c = None
         then Some ([\<lparr>rawId = ''42'',
                      rawProperties = [(''name'', ''Acme''), (''domain'', ''acme.com'')]\<rparr>], None)
         else Some ([], None)),
      embeddingModel = (\<lambda>text. Some [1, 0]),
      putFails = (\<lambda>k. False),
      upsertFails = (\<lambda>k. False),
      sourceFields = [''name'', ''description''],
      displayFields = [''name'', ''domain''],
      pageBudget = 2\<rparr>"

definition acmeRecord :: "timestamp \<Rightarrow> EntityRecord" where
  "acmeRecord now = \<lparr>objectType = Company, objectId = ''42'',
      entityProperties = [(''name'', ''Acme''), (''domain'', ''acme.com'')], refreshedAt = Some now\<rparr>"

definition acmeEntry :: "timestamp \<Rightarrow> VectorEntry" where
  "acmeEntry now = \<lparr>entryType = Company, entryId = ''42'', embedding = [1, 0], sourceText = ''Acme'',
      metadata = [(''name'', ''Acme''), (''domain'', ''acme.com'')], metadataRefreshedAt = now\<rparr>"

text \<open>The stores after a refresh of the companies of \<open>acmeRemote\<close> at time \<open>now\<close>.\<close>

definition acmeState :: "timestamp \<Rightarrow> CacheState" where
  "acmeState now = \<lparr>kv = [(''company_42'', acmeRecord now)], index = [(''company_42'', acmeEntry now)],
      cache = [(''Acme'', [1, 0])]\<rparr>"



text \<open>A store that holds a company the remote source no longer lists.\<close>

definition goneRecord :: EntityRecord where
  "goneRecord = \<lparr>objectType = Company, objectId = ''41'',
      entityProperties = [(''name'', ''Gone'')], refreshedAt = Some 0\<rparr>"

definition staleState :: CacheState where
  "staleState = \<lparr>kv = [(''company_41'', goneRecord)], index = [], cache = []\<rparr>"

text \<open>
  An index of three companies: two as close to the query \<open>[1, 0]\<close> as can be, one of
  them refreshed later, and one orthogonal to it.
\<close>

definition entry1 :: VectorEntry where
  "entry1 = \<lparr>entryType = Company, entryId = ''1'', embedding = [1, 0], sourceText = ''Acme'',
             metadata = [], metadataRefreshedAt = 5\<rparr>"

definition entry2 :: VectorEntry where
  "entry2 = \<lparr>entryType = Company, entryId = ''2'', embedding = [2, 0], sourceText = ''Acme Inc'',
             metadata = [], metadataRefreshedAt = 9\<rparr>"

definition entry3 :: VectorEntry where
  "entry3 = \<lparr>entryType = Company, entryId = ''3'', embedding = [0, 1], sourceText = ''Zenith'',
             metadata = [], metadataRefreshedAt = 9\<rparr>"

definition index3 :: VectorIndex where
  "index3 = [(''company_1'', entry1), (''company_2'', entry2), (''company_3'', entry3)]"

section \<open>Properties of the deals HTTP layer\<close>

lemmas service_defs =
  DealsService_getAllDeals_def DealsService_getDealsByPipeline_def DealsService_getDealById_def
  DealsService_createDeal_def DealsService_updateDeal_def console_error_def

lemmas controller_defs =
  DealsController_getAllDeals_def DealsController_getDealsByPipeline_def
  DealsController_getDealById_def DealsController_createDeal_def DealsController_updateDeal_def
  res_status_def res_json_def

lemma split_slash_segment: "CHR ''/'' \<notin> set X \<Longrightarrow> split_slash X = [X]"
  by (induction X) auto

text \<open>
  Claim C1, as the code has it. A lookup of an absent deal is a rejection of the remote
  client's \<^verbatim>\<open>getById\<close>. The handler has no outcome of its own for it: whatever the
  rejection is, \<^verbatim>\<open>getDealById\<close> logs it and answers with status 500 and the error payload
  \<^verbatim>\<open>Failed to fetch deal <dealId>\<close>.
\<close>

theorem getDealById_missing:
  "getById c (req_param req ''dealId'') (remote w) = (Inl error, r) \<Longrightarrow>
     DealsController_getDealById c req (w, new_response) =
       (\<lparr>console = console w @
            [(''Error fetching deal '' @ template (req_param req ''dealId'') @ '':'',
              Rejection error)],
         remote = r\<rparr>,
        \<lparr>statusCode = 500,
         sent = Some (JObj [(''error'',
                  JStr (''Failed to fetch deal '' @ template (req_param req ''dealId'')))])\<rparr>)"
  by (simp add: controller_defs service_defs new_response_def error_body_def Let_def)

theorem getDealById_missing_witness:
  "getById crm (req_param \<lparr>params = [(''dealId'', ''7'')], body = JNull\<rparr> ''dealId'') (remote crm0) =
     (Inl ObjectNotFound, [(''42'', acme)])
   \<and> DealsController_getDealById crm \<lparr>params = [(''dealId'', ''7'')], body = JNull\<rparr> (crm0, new_response) =
       (\<lparr>console = [(''Error fetching deal 7:'', Rejection ObjectNotFound)], remote = [(''42'', acme)]\<rparr>,
        \<lparr>statusCode = 500, sent = Some (JObj [(''error'', JStr ''Failed to fetch deal 7'')])\<rparr>)"
proof -
  have h: "getById crm (req_param \<lparr>params = [(''dealId'', ''7'')], body = JNull\<rparr> ''dealId'') (remote crm0) =
     (Inl ObjectNotFound, [(''42'', acme)])"
    by (simp add: crm_def crm0_def req_param_def)
  from getDealById_missing [OF h] h show ?thesis
    by (simp add: crm0_def req_param_def template_def)
qed

text \<open>
  Claim C1 as stated fails: in a CRM that holds only deal 42, the lookup of
  \<^verbatim>\<open>missing-id\<close> is rejected by the client as not found, and \<^verbatim>\<open>getDealById\<close> surfaces
  that to the caller as a failure, status 500 with an error payload, with the error logged.
\<close>

theorem getDealById_missing_counterexample:
  "getById crm (Some ''missing-id'') (remote crm0) = (Inl ObjectNotFound, remote crm0)
   \<and> DealsController_getDealById crm \<lparr>params = [(''dealId'', ''missing-id'')], body = JNull\<rparr>
       (crm0, new_response) =
     (\<lparr>console = [(''Error fetching deal missing-id:'', Rejection ObjectNotFound)],
       remote = remote crm0\<rparr>,
      \<lparr>statusCode = 500, sent = Some (JObj [(''error'', JStr ''Failed to fetch deal missing-id'')])\<rparr>)"
  by (simp add: controller_defs service_defs crm_def crm0_def req_param_def new_response_def
      template_def error_body_def Let_def)

text \<open>
  Claim C2 fails on \<^verbatim>\<open>getAllDeals\<close>. The service returns \<^verbatim>\<open>apiResponse.results\<close> of what
  the client's \<^verbatim>\<open>getAll\<close> resolves to. When that is the bare array of deals, which has
  no such property, the service returns \<^verbatim>\<open>undefined\<close> without an error, and the handler
  answers \<^verbatim>\<open>GET /deals\<close> with status 200 and an empty body: neither the deals nor a
  failure result.
\<close>

theorem getAllDeals_bare_array:
  "getAll crm (remote crm0) = (Inr (JArr [acme]), remote crm0)
   \<and> DealsService_getAllDeals crm crm0 = (Inr JUndefined, crm0)
   \<and> DealsController_getAllDeals crm req0 (crm0, new_response) =
       (crm0, \<lparr>statusCode = 200, sent = Some JUndefined\<rparr>)
   \<and> serve crm decode_plain GET ''/'' JNull crm0 =
       Routed (crm0, \<lparr>statusCode = 200, sent = Some JUndefined\<rparr>)"
  by (simp add: controller_defs service_defs crm_def crm0_def new_response_def serve_def
      router_def match_path_def run_handler_def)

text \<open>
  Claim C8. When the remote create of \<^verbatim>\<open>{ properties: body }\<close> resolves to a deal,
  \<^verbatim>\<open>createDeal\<close> answers status 201 with that deal, and the remote state is the one that
  call leaves: the payload sent is the request body wrapped under \<^verbatim>\<open>properties\<close>. Every
  other handler, when its remote call resolves and the service returns a value, answers
  with the default status 200 and that value, after that one call.
\<close>

theorem createDeal_created:
  fixes c :: "('e, 'r) client"
  shows
  "(create c \<lparr>properties = body req\<rparr> (remote w) = (Inr d, r) \<longrightarrow>
      DealsController_createDeal c req (w, new_response) =
        (w\<lparr>remote := r\<rparr>, \<lparr>statusCode = 201, sent = Some d\<rparr>))
   \<and> (getAll c (remote w) = (Inr a1, r1) \<and> (results a1 :: 'e thrown + json) = Inr v1 \<longrightarrow>
      DealsController_getAllDeals c req (w, new_response) =
        (w\<lparr>remote := r1\<rparr>, \<lparr>statusCode = 200, sent = Some v1\<rparr>))
   \<and> (doSearch c \<lparr>filterGroups = [\<lparr>filters =
                 [\<lparr>propertyName = ''pipeline'', operator = ''EQ'',
                   filterValue = req_param req ''pipelineId''\<rparr>]\<rparr>]\<rparr> (remote w) = (Inr a2, r2)
        \<and> (results a2 :: 'e thrown + json) = Inr v2 \<longrightarrow>
      DealsController_getDealsByPipeline c req (w, new_response) =
        (w\<lparr>remote := r2\<rparr>, \<lparr>statusCode = 200, sent = Some v2\<rparr>))
   \<and> (getById c (req_param req ''dealId'') (remote w) = (Inr d3, r3) \<longrightarrow>
      DealsController_getDealById c req (w, new_response) =
        (w\<lparr>remote := r3\<rparr>, \<lparr>statusCode = 200, sent = Some d3\<rparr>))
   \<and> (update c (req_param req ''dealId'') \<lparr>properties = body req\<rparr> (remote w) = (Inr d4, r4) \<longrightarrow>
      DealsController_updateDeal c req (w, new_response) =
        (w\<lparr>remote := r4\<rparr>, \<lparr>statusCode = 200, sent = Some d4\<rparr>))"
  by (simp add: service_defs controller_defs new_response_def Let_def)

theorem createDeal_created_witness:
  "create crm \<lparr>properties = body req0\<rparr> (remote crm0) =
     (Inr created, [(''42'', acme), (''deal-i'', created)])
   \<and> DealsController_createDeal crm req0 (crm0, new_response) =
     (\<lparr>console = [], remote = [(''42'', acme), (''deal-i'', created)]\<rparr>,
      \<lparr>statusCode = 201, sent = Some created\<rparr>)
   \<and> getAll crm (remote crm0) = (Inr (JArr [acme]), [(''42'', acme)])
   \<and> (results (JArr [acme]) :: remote_failure thrown + json) = Inr JUndefined
   \<and> DealsController_getAllDeals crm req0 (crm0, new_response) =
     (crm0, \<lparr>statusCode = 200, sent = Some JUndefined\<rparr>)
   \<and> doSearch crm \<lparr>filterGroups = [\<lparr>filters =
                 [\<lparr>propertyName = ''pipeline'', operator = ''EQ'',
                   filterValue = req_param req0 ''pipelineId''\<rparr>]\<rparr>]\<rparr> (remote crm0) =
       (Inr (JObj [(''total'', JNum 1), (''results'', JArr [acme])]), [(''42'', acme)])
   \<and> (results (JObj [(''total'', JNum 1), (''results'', JArr [acme])]) :: remote_failure thrown + json)
       = Inr (JArr [acme])
   \<and> DealsController_getDealsByPipeline crm req0 (crm0, new_response) =
     (crm0, \<lparr>statusCode = 200, sent = Some (JArr [acme])\<rparr>)
   \<and> getById crm (req_param req0 ''dealId'') (remote crm0) = (Inr acme, [(''42'', acme)])
   \<and> DealsController_getDealById crm req0 (crm0, new_response) =
     (crm0, \<lparr>statusCode = 200, sent = Some acme\<rparr>)
   \<and> update crm (req_param req0 ''dealId'') \<lparr>properties = body req0\<rparr> (remote crm0) =
       (Inr updated, [(''42'', updated)])
   \<and> DealsController_updateDeal crm req0 (crm0, new_response) =
     (\<lparr>console = [], remote = [(''42'', updated)]\<rparr>, \<lparr>statusCode = 200, sent = Some updated\<rparr>)"
proof -
  have h1: "create crm \<lparr>properties = body req0\<rparr> (remote crm0) =
     (Inr created, [(''42'', acme), (''deal-i'', created)])"
    by (simp add: crm_def req0_def crm0_def fresh_id_def created_def Let_def)
  have h2: "getAll crm (remote crm0) = (Inr (JArr [acme]), [(''42'', acme)])"
    by (simp add: crm_def crm0_def)
  have h2': "(results (JArr [acme]) :: remote_failure thrown + json) = Inr JUndefined"
    by simp
  have h3: "doSearch crm \<lparr>filterGroups = [\<lparr>filters =
                 [\<lparr>propertyName = ''pipeline'', operator = ''EQ'',
                   filterValue = req_param req0 ''pipelineId''\<rparr>]\<rparr>]\<rparr> (remote crm0) =
       (Inr (JObj [(''total'', JNum 1), (''results'', JArr [acme])]), [(''42'', acme)])"
    by (simp add: crm_def crm0_def req0_def req_param_def satisfies_def acme_def)
  have h3': "(results (JObj [(''total'', JNum 1), (''results'', JArr [acme])]) :: remote_failure thrown + json)
       = Inr (JArr [acme])"
    by simp
  have h4: "getById crm (req_param req0 ''dealId'') (remote crm0) = (Inr acme, [(''42'', acme)])"
    by (simp add: crm_def crm0_def req0_def req_param_def)
  have h5: "update crm (req_param req0 ''dealId'') \<lparr>properties = body req0\<rparr> (remote crm0) =
       (Inr updated, [(''42'', updated)])"
    by (simp add: crm_def crm0_def req0_def req_param_def updated_def Let_def)
  have same: "crm0\<lparr>remote := [(''42'', acme)]\<rparr> = crm0"
    by (simp add: crm0_def)
  note t = createDeal_created [of crm req0 crm0 created "[(''42'', acme), (''deal-i'', created)]"
      "JArr [acme]" "[(''42'', acme)]" JUndefined
      "JObj [(''total'', JNum 1), (''results'', JArr [acme])]" "[(''42'', acme)]" "JArr [acme]"
      acme "[(''42'', acme)]" updated "[(''42'', updated)]"]
  from t h1 have c1: "DealsController_createDeal crm req0 (crm0, new_response) =
     (\<lparr>console = [], remote = [(''42'', acme), (''deal-i'', created)]\<rparr>,
      \<lparr>statusCode = 201, sent = Some created\<rparr>)"
    by (simp add: crm0_def)
  from t h2 h2' same have c2: "DealsController_getAllDeals crm req0 (crm0, new_response) =
     (crm0, \<lparr>statusCode = 200, sent = Some JUndefined\<rparr>)"
    by simp
  from t h3 h3' same have c3: "DealsController_getDealsByPipeline crm req0 (crm0, new_response) =
     (crm0, \<lparr>statusCode = 200, sent = Some (JArr [acme])\<rparr>)"
    by simp
  from t h4 same have c4: "DealsController_getDealById crm req0 (crm0, new_response) =
     (crm0, \<lparr>statusCode = 200, sent = Some acme\<rparr>)"
    by simp
  from t h5 have c5: "DealsController_updateDeal crm req0 (crm0, new_response) =
     (\<lparr>console = [], remote = [(''42'', updated)]\<rparr>, \<lparr>statusCode = 200, sent = Some updated\<rparr>)"
    by (simp add: crm0_def)
  from h1 h2 h2' h3 h3' h4 h5 c1 c2 c3 c4 c5 show ?thesis by blast
qed



text \<open>
  Claim C10, as the code has it. \<^verbatim>\<open>getDealsByPipeline(pipelineId)\<close> returns the
  \<^verbatim>\<open>results\<close> of one remote search whose request has a single filter group with the
  single filter \<^verbatim>\<open>pipeline EQ pipelineId\<close>. And for every \<open>X\<close> that is a path segment (not
  empty, without a slash) and percent-decodes to \<open>v\<close>, the router sends
  \<^verbatim>\<open>GET /deals/pipeline/X\<close> to \<^verbatim>\<open>getDealsByPipeline\<close> with \<^verbatim>\<open>pipelineId = v\<close>, not to
  \<^verbatim>\<open>getDealById\<close>. The order of registration plays no part in that: the router with
  \<^verbatim>\<open>/:dealId\<close> registered first does the same, since \<^verbatim>\<open>/:dealId\<close> matches one segment
  only.
\<close>

theorem pipeline_route:
  "fst (DealsService_getDealsByPipeline c pipelineId w) =
     (case fst (doSearch c \<lparr>filterGroups = [\<lparr>filters =
                 [\<lparr>propertyName = ''pipeline'', operator = ''EQ'', filterValue = pipelineId\<rparr>]\<rparr>]\<rparr>
               (remote w)) of
        Inl e \<Rightarrow> Inl (Rejection e)
      | Inr apiResponse \<Rightarrow> results apiResponse)
   \<and> (X \<noteq> [] \<and> CHR ''/'' \<notin> set X \<and> dec X = Some v \<longrightarrow>
        dispatch dec router False GET (''/pipeline/'' @ X)
          = Routed (GetDealsByPipeline, [(''pipelineId'', v)])
      \<and> dispatch dec router_dealId_first False GET (''/pipeline/'' @ X)
          = Routed (GetDealsByPipeline, [(''pipelineId'', v)])
      \<and> serve c dec GET (''/pipeline/'' @ X) b w =
          Routed (DealsController_getDealsByPipeline c \<lparr>params = [(''pipelineId'', v)], body = b\<rparr>
                  (w, new_response)))"
proof -
  have svc: "fst (DealsService_getDealsByPipeline c pipelineId w) =
     (case fst (doSearch c \<lparr>filterGroups = [\<lparr>filters =
                 [\<lparr>propertyName = ''pipeline'', operator = ''EQ'', filterValue = pipelineId\<rparr>]\<rparr>]\<rparr>
               (remote w)) of
        Inl e \<Rightarrow> Inl (Rejection e)
      | Inr apiResponse \<Rightarrow> results apiResponse)"
    by (auto simp: DealsService_getDealsByPipeline_def Let_def split: prod.splits sum.splits)
  have rt: "dispatch dec router False GET (''/pipeline/'' @ X)
          = Routed (GetDealsByPipeline, [(''pipelineId'', v)])
      \<and> dispatch dec router_dealId_first False GET (''/pipeline/'' @ X)
          = Routed (GetDealsByPipeline, [(''pipelineId'', v)])"
    if X: "X \<noteq> []" "CHR ''/'' \<notin> set X" "dec X = Some v"
  proof -
    from X(2) have sp: "split_slash X = [X]"
      by (rule split_slash_segment)
    show ?thesis
      using X(1,3)
      by (simp add: router_def router_dealId_first_def match_path_def sp)
  qed
  from svc rt show ?thesis
    by (auto simp: serve_def run_handler_def)
qed

theorem pipeline_route_witness:
  "''default'' \<noteq> [] \<and> CHR ''/'' \<notin> set ''default'' \<and> decode_plain ''default'' = Some ''default''
   \<and> dispatch decode_plain router False GET ''/pipeline/default''
       = Routed (GetDealsByPipeline, [(''pipelineId'', ''default'')])
   \<and> dispatch decode_plain router_dealId_first False GET ''/pipeline/default''
       = Routed (GetDealsByPipeline, [(''pipelineId'', ''default'')])
   \<and> serve crm decode_plain GET ''/pipeline/default'' JNull crm0 =
       Routed (crm0, \<lparr>statusCode = 200, sent = Some (JArr [acme])\<rparr>)"
proof -
  have h: "''default'' \<noteq> [] \<and> CHR ''/'' \<notin> set ''default'' \<and> decode_plain ''default'' = Some ''default''"
    by (simp add: decode_plain_def)
  have e: "DealsController_getDealsByPipeline crm \<lparr>params = [(''pipelineId'', ''default'')], body = JNull\<rparr>
             (crm0, new_response) = (crm0, \<lparr>statusCode = 200, sent = Some (JArr [acme])\<rparr>)"
    by (simp add: controller_defs DealsService_getDealsByPipeline_def crm_def crm0_def req_param_def
        satisfies_def acme_def new_response_def Let_def)
  from pipeline_route [of crm "Some ''default''" crm0 "''default''" decode_plain "''default''" JNull] h e
  show ?thesis by simp
qed

text \<open>
  Claim C10 as stated fails for two requests of the form \<^verbatim>\<open>GET /deals/pipeline/X\<close>. With
  \<open>X\<close> empty, the path \<^verbatim>\<open>/pipeline/\<close> is \<^verbatim>\<open>/pipeline\<close> with a trailing slash: no pipeline
  id is there to bind, \<^verbatim>\<open>/:dealId\<close> matches, and \<^verbatim>\<open>getDealById\<close> runs with
  \<^verbatim>\<open>dealId = pipeline\<close>. With \<open>X\<close> a lone percent sign the parameter does not decode, and
  no handler runs.
\<close>

theorem pipeline_route_counterexample:
  "dispatch decode_plain router False GET ''/pipeline/''
     = Routed (GetDealById, [(''dealId'', ''pipeline'')])
   \<and> serve crm decode_plain GET ''/pipeline/'' JNull crm0 =
       Routed (\<lparr>console = [(''Error fetching deal pipeline:'', Rejection ObjectNotFound)],
                remote = [(''42'', acme)]\<rparr>,
               \<lparr>statusCode = 500, sent = Some (JObj [(''error'', JStr ''Failed to fetch deal pipeline'')])\<rparr>)
   \<and> dispatch decode_plain router False GET ''/pipeline/%'' = DecodeFailed"
  by (simp add: serve_def router_def match_path_def decode_plain_def run_handler_def
      controller_defs service_defs crm_def crm0_def req_param_def new_response_def template_def
      error_body_def Let_def)

section \<open>Properties of the synchronized cache\<close>

subsection \<open>Stores in key order\<close>

lemma map_of_overwrite: "map_of (overwrite k v l) = (map_of l)(k \<mapsto> v)"
  by (induction l) (auto simp: fun_upd_twist)

lemma keys_overwrite: "fst ` set (overwrite k v l) = insert k (fst ` set l)"
  by (simp add: dom_map_of_conv_image_fst [symmetric] map_of_overwrite)

lemma set_overwrite: "set (overwrite k v l) \<subseteq> insert (k, v) (set l)"
  by (induction l) (auto split: if_splits)

lemma sorted_overwrite:
  "sorted_wrt (<) (map fst l) \<Longrightarrow> sorted_wrt (<) (map fst (overwrite k v l))"
proof (induction l)
  case Nil
  then show ?case by simp
next
  case (Cons p l)
  obtain k' v' where p: "p = (k', v')" by (cases p)
  from Cons.prems p have tl: "sorted_wrt (<) (map fst l)" and hd: "\<forall>x\<in>fst ` set l. k' < x"
    by auto
  show ?case
  proof (cases "k = k'")
    case True
    with Cons.prems p show ?thesis by simp
  next
    case False
    show ?thesis
    proof (cases "k < k'")
      case True
      with hd have "\<forall>x\<in>fst ` set l. k < x" by auto
      with True False Cons.prems p show ?thesis by auto
    next
      case gt: False
      with False have "k' < k" by simp
      with hd have "\<forall>x\<in>fst ` set (overwrite k v l). k' < x"
        by (simp add: keys_overwrite)
      with gt False p Cons.IH [OF tl] show ?thesis by auto
    qed
  qed
qed

lemma sorted_remove:
  "sorted_wrt (<) (map fst l) \<Longrightarrow> sorted_wrt (<) (map fst (filter P l))"
  by (induction l) auto



subsection \<open>Well-formed stores\<close>

lemma keyed_overwrite:
  assumes "keyed store" and "k = storageKey (objectType r) (objectId r)"
  shows "keyed (overwrite k r store)"
  using assms set_overwrite [of k r store] by (auto simp: keyed_def list_all_iff)

lemma keyed_remove: "keyed store \<Longrightarrow> keyed (filter P store)"
  by (auto simp: keyed_def list_all_iff)

lemma wellFormed_refreshEntity:
  "wellFormed st \<Longrightarrow> wellFormed (snd (refreshEntity env now t raw st))"
  by (auto simp: refreshEntity_def wellFormed_def KeyValueStore_put_def VectorIndex_upsert_def
      Let_def sorted_overwrite keyed_overwrite split: prod.splits option.splits)

lemma wellFormed_refreshEntities:
  "wellFormed st \<Longrightarrow> wellFormed (snd (refreshEntities env now t raws summary st))"
proof (induction raws arbitrary: summary st)
  case Nil
  then show ?case by simp
next
  case (Cons raw raws)
  from Cons.prems have "wellFormed (snd (refreshEntity env now t raw st))"
    by (rule wellFormed_refreshEntity)
  with Cons.IH show ?case
    by (auto split: prod.splits sum.splits)
qed

lemma wellFormed_refreshPages:
  "wellFormed st \<Longrightarrow> wellFormed (snd (refreshPages env now t budget cursor summary st))"
proof (induction budget arbitrary: cursor summary st)
  case 0
  then show ?case by simp
next
  case (Suc budget)
  show ?case
  proof (cases "fetchPage env t cursor")
    case None
    with Suc.prems show ?thesis by simp
  next
    case (Some page)
    obtain entities "next" where page: "page = (entities, next)" by (cases page)
    obtain res st1 where
      run0: "refreshEntities env now t entities summary st = (res, st1)"
      by (cases "refreshEntities env now t entities summary st")
    obtain err summary1 where res: "res = (err, summary1)" by (cases res)
    note run = run0 [unfolded res]
    from Suc.prems have "wellFormed (snd (refreshEntities env now t entities summary st))"
      by (rule wellFormed_refreshEntities)
    with run have wf1: "wellFormed st1" by simp
    from Suc.IH [OF wf1] wf1 Some page run show ?thesis
      by (auto split: option.splits)
  qed
qed

lemma wellFormed_refresh:
  "wellFormed st \<Longrightarrow> wellFormed (snd (RefreshOrchestrator_refresh env now t sinceCursor st))"
  by (simp add: RefreshOrchestrator_refresh_def wellFormed_refreshPages)

lemma reachable_wellFormed: "reachable st \<Longrightarrow> wellFormed st"
proof (induction rule: reachable.induct)
  case initial
  show ?case by (simp add: wellFormed_def emptyState_def keyed_def)
next
  case (refresh st env now t sinceCursor)
  then show ?case by (simp add: wellFormed_refresh)
next
  case (delete st t i)
  then show ?case
    by (simp add: wellFormed_def deleteEntity_def KeyValueStore_delete_def VectorIndex_remove_def
        sorted_remove keyed_remove)
next
  case (embed st env content)
  then show ?case by (simp add: wellFormed_def)
qed

lemma at_most_one_per_key:
  "distinct (map fst l) \<Longrightarrow> length (filter (\<lambda>p. fst p = k) l) \<le> 1"
proof (induction l)
  case Nil
  then show ?case by simp
next
  case (Cons p l)
  show ?case
  proof (cases "fst p = k")
    case True
    with Cons.prems have "k \<notin> set (map fst l)" by simp
    then have "filter (\<lambda>p. fst p = k) l = []"
      unfolding filter_empty_conv by force
    with True show ?thesis by simp
  next
    case False
    with Cons show ?thesis by simp
  qed
qed

subsection \<open>Concrete runs\<close>

lemmas refresh_eval =
  RefreshOrchestrator_refresh_def acmeRemote_def refreshEntity_def KeyValueStore_put_def
  VectorIndex_upsert_def EmbeddingCache_embed_def deriveSourceText_def deriveMetadata_def
  storageKey_def List.map_filter_def Let_def numeral_2_eq_2

lemma first_refresh:
  "snd (RefreshOrchestrator_refresh acmeRemote now Company None emptyState) = acmeState now"
  by (simp add: refresh_eval emptyState_def acmeState_def acmeRecord_def acmeEntry_def)

lemma second_refresh:
  "snd (RefreshOrchestrator_refresh acmeRemote now' Company None (acmeState now)) = acmeState now'"
  by (simp add: refresh_eval acmeState_def acmeRecord_def acmeEntry_def)

lemma stale_refresh:
  "kv (snd (RefreshOrchestrator_refresh acmeRemote now Company None staleState)) =
     [(''company_41'', goneRecord),
      (''company_42'', acmeRecord now)]"
  by (simp add: refresh_eval staleState_def acmeRecord_def)

subsection \<open>One record per entity\<close>

text \<open>
  Claim C4. In every state the stores can reach by refreshes, deletions and searches,
  the key-value store holds at most one EntityRecord for a pair of object type and
  object id: a refresh overwrites the record of an entity where it stands and never
  adds a second one.
\<close>

theorem one_record_per_entity:
  assumes "reachable st"
  shows "distinct (map fst (kv st))
       \<and> length (filter (\<lambda>r. objectType r = t \<and> objectId r = i) (map snd (kv st))) \<le> 1"
proof -
  let ?P = "\<lambda>p. objectType (snd p) = t \<and> objectId (snd p) = i"
  let ?Q = "\<lambda>p. fst p = storageKey t i"
  from assms have wf: "wellFormed st" by (rule reachable_wellFormed)
  then have d: "distinct (map fst (kv st))"
    using strict_sorted_iff by (auto simp: wellFormed_def)
  have imp: "?Q p" if "p \<in> set (kv st)" and "?P p" for p
    using wf that by (cases p) (auto simp: wellFormed_def keyed_def list_all_iff)
  have "filter ?P (kv st) = filter ?P (filter ?Q (kv st))"
    unfolding filter_filter by (rule filter_cong) (use imp in blast)+
  then have "length (filter ?P (kv st)) \<le> length (filter ?Q (kv st))"
    using length_filter_le [of ?P "filter ?Q (kv st)"] by simp
  also have "\<dots> \<le> 1" using d by (rule at_most_one_per_key)
  finally have "length (filter ?P (kv st)) \<le> 1" .
  moreover have "filter (\<lambda>r. objectType r = t \<and> objectId r = i) (map snd (kv st))
                 = map snd (filter ?P (kv st))"
    by (simp add: filter_map comp_def)
  ultimately show ?thesis using d by simp
qed

theorem one_record_per_entity_witness:
  "reachable (snd (RefreshOrchestrator_refresh acmeRemote 2 Company None
       (snd (RefreshOrchestrator_refresh acmeRemote 1 Company None emptyState))))
   \<and> kv (snd (RefreshOrchestrator_refresh acmeRemote 2 Company None
       (snd (RefreshOrchestrator_refresh acmeRemote 1 Company None emptyState))))
     = [(''company_42'', acmeRecord 2)]
   \<and> distinct (map fst [(''company_42'', acmeRecord 2)])
   \<and> length (filter (\<lambda>r. objectType r = Company \<and> objectId r = ''42'')
       (map snd [(''company_42'', acmeRecord 2)])) \<le> 1"
proof -
  have r: "reachable (snd (RefreshOrchestrator_refresh acmeRemote 2 Company None
       (snd (RefreshOrchestrator_refresh acmeRemote 1 Company None emptyState))))"
    by (intro reachable.refresh reachable.initial)
  have e: "kv (snd (RefreshOrchestrator_refresh acmeRemote 2 Company None
       (snd (RefreshOrchestrator_refresh acmeRemote 1 Company None emptyState))))
     = [(''company_42'', acmeRecord 2)]"
    unfolding first_refresh second_refresh by (simp add: acmeState_def)
  from one_record_per_entity [OF r, of Company "''42''"] r e show ?thesis
    by simp
qed

subsection \<open>Refresh never deletes\<close>

lemma keys_refreshEntity:
  "fst ` set (kv st) \<subseteq> fst ` set (kv (snd (refreshEntity env now t raw st)))"
  by (auto simp: refreshEntity_def KeyValueStore_put_def VectorIndex_upsert_def Let_def
      keys_overwrite split: prod.splits option.splits)

lemma keys_refreshEntities:
  "fst ` set (kv st) \<subseteq> fst ` set (kv (snd (refreshEntities env now t raws summary st)))"
proof (induction raws arbitrary: summary st)
  case Nil
  show ?case by simp
next
  case (Cons raw raws)
  obtain a st1 where step: "refreshEntity env now t raw st = (a, st1)" by (cases "refreshEntity env now t raw st")
  from keys_refreshEntity [of st env now t raw] step
  have k1: "fst ` set (kv st) \<subseteq> fst ` set (kv st1)" by simp
  show ?case
  proof (cases a)
    case (Inl err)
    with step k1 show ?thesis by simp
  next
    case (Inr ok)
    let ?summary1 = "summary\<lparr>count := count summary + 1,
                     failures := failures summary + (if ok then 0 else 1)\<rparr>"
    from Cons.IH [of st1 ?summary1] k1
    have "fst ` set (kv st) \<subseteq> fst ` set (kv (snd (refreshEntities env now t raws ?summary1 st1)))"
      by (rule subset_trans [rotated])
    with step Inr show ?thesis by simp
  qed
qed

lemma keys_refreshPages:
  "fst ` set (kv st) \<subseteq> fst ` set (kv (snd (refreshPages env now t budget cursor summary st)))"
proof (induction budget arbitrary: cursor summary st)
  case 0
  show ?case by simp
next
  case (Suc budget)
  show ?case
  proof (cases "fetchPage env t cursor")
    case None
    then show ?thesis by simp
  next
    case (Some page)
    obtain entities "next" where page: "page = (entities, next)" by (cases page)
    obtain res st1 where
      run0: "refreshEntities env now t entities summary st = (res, st1)"
      by (cases "refreshEntities env now t entities summary st")
    obtain err summary1 where res: "res = (err, summary1)" by (cases res)
    note run = run0 [unfolded res]
    from keys_refreshEntities [of st env now t entities summary] run
    have k1: "fst ` set (kv st) \<subseteq> fst ` set (kv st1)" by simp
    show ?thesis
    proof (cases "err = None \<and> next \<noteq> None")
      case True
      then obtain c where c: "next = Some c" by auto
      from Suc.IH [of st1 "Some c" summary1] k1 True c Some page run show ?thesis
        by auto
    next
      case False
      with k1 Some page run show ?thesis
        by (auto split: option.splits)
    qed
  qed
qed

text \<open>
  Claim C6. A record that a lookup finds before a refresh is found after it, whatever
  the remote source returns and however the refresh ends: refresh may overwrite a
  record, it never removes one.
\<close>

theorem refresh_never_deletes:
  assumes "QueryService_lookup t' i st = Inr r"
  shows "\<exists>r'. QueryService_lookup t' i (snd (RefreshOrchestrator_refresh env now t sinceCursor st)) = Inr r'"
proof -
  let ?st' = "snd (RefreshOrchestrator_refresh env now t sinceCursor st)"
  from assms have "storageKey t' i \<in> dom (map_of (kv st))"
    by (auto simp: QueryService_lookup_def KeyValueStore_get_def split: option.splits)
  then have "storageKey t' i \<in> fst ` set (kv st)"
    by (simp add: dom_map_of_conv_image_fst)
  then have "storageKey t' i \<in> fst ` set (kv ?st')"
    using keys_refreshPages unfolding RefreshOrchestrator_refresh_def by blast
  then have "storageKey t' i \<in> dom (map_of (kv ?st'))"
    by (simp add: dom_map_of_conv_image_fst)
  then show ?thesis
    by (auto simp: QueryService_lookup_def KeyValueStore_get_def split: option.splits)
qed

theorem refresh_never_deletes_witness:
  "QueryService_lookup Company ''41'' staleState =
     Inr goneRecord
   \<and> (\<exists>r'. QueryService_lookup Company ''41''
            (snd (RefreshOrchestrator_refresh acmeRemote 1 Company None staleState)) = Inr r')
   \<and> QueryService_lookup Company ''41''
        (snd (RefreshOrchestrator_refresh acmeRemote 1 Company None staleState)) =
      Inr goneRecord"
proof -
  have h: "QueryService_lookup Company ''41'' staleState =
     Inr goneRecord"
    by (simp add: QueryService_lookup_def KeyValueStore_get_def storageKey_def staleState_def)
  have e: "QueryService_lookup Company ''41''
        (snd (RefreshOrchestrator_refresh acmeRemote 1 Company None staleState)) =
      Inr goneRecord"
    unfolding QueryService_lookup_def stale_refresh
    by (simp add: KeyValueStore_get_def storageKey_def)
  from refresh_never_deletes [OF h, of acmeRemote 1 Company None] h e show ?thesis by blast
qed

subsection \<open>Refreshing twice\<close>

















subsection \<open>Top-k query\<close>

lemma dot_Nil [simp]: "dot [] b = 0" "dot a [] = 0"
  by (simp_all add: dot_def)

lemma dot_Cons [simp]: "dot (x # a) (y # b) = x * y + dot a b"
  by (simp add: dot_def)

lemma dot_self_nonneg: "0 \<le> dot a a"
  by (induction a) simp_all

lemma cauchy_step:
  fixes x y S A B :: real
  assumes S: "S\<^sup>2 \<le> A * B" and A: "0 \<le> A" and B: "0 \<le> B"
  shows "(x * y + S)\<^sup>2 \<le> (x * x + A) * (y * y + B)"
proof -
  have nn: "0 \<le> x\<^sup>2 * B + A * y\<^sup>2" using A B by simp
  have "(2 * x * y * S)\<^sup>2 = 4 * (x\<^sup>2 * y\<^sup>2) * S\<^sup>2"
    by (simp add: power2_eq_square)
  also have "\<dots> \<le> 4 * (x\<^sup>2 * y\<^sup>2) * (A * B)"
    using S by (intro mult_left_mono) simp_all
  also have "\<dots> \<le> 4 * (x\<^sup>2 * y\<^sup>2) * (A * B) + (x\<^sup>2 * B - A * y\<^sup>2)\<^sup>2"
    by simp
  also have "\<dots> = (x\<^sup>2 * B + A * y\<^sup>2)\<^sup>2"
    by (simp add: power2_eq_square algebra_simps)
  finally have "2 * x * y * S \<le> x\<^sup>2 * B + A * y\<^sup>2"
    using nn by (rule power2_le_imp_le)
  with S show ?thesis
    by (simp add: power2_eq_square algebra_simps)
qed

lemma cauchy_schwarz: "(dot a b)\<^sup>2 \<le> dot a a * dot b b"
proof (induction a arbitrary: b)
  case Nil
  show ?case by simp
next
  case (Cons x a)
  show ?case
  proof (cases b)
    case Nil
    then show ?thesis by simp
  next
    case (Cons y b')
    with Cons.IH [of b'] show ?thesis
      by (simp add: cauchy_step dot_self_nonneg)
  qed
qed

lemma cosine_bounds: "- 1 \<le> cosineSimilarity a b \<and> cosineSimilarity a b \<le> 1"
proof -
  let ?d = "sqrt (dot a a) * sqrt (dot b b)"
  have d: "0 \<le> ?d" by (simp add: dot_self_nonneg)
  have "\<bar>dot a b\<bar> = sqrt ((dot a b)\<^sup>2)" by simp
  also have "\<dots> \<le> sqrt (dot a a * dot b b)"
    using cauchy_schwarz [of a b] by (simp only: real_sqrt_le_iff)
  also have "\<dots> = ?d" by (rule real_sqrt_mult)
  finally have le: "\<bar>dot a b\<bar> \<le> ?d" .
  show ?thesis
  proof (cases "?d = 0")
    case True
    then have "cosineSimilarity a b = 0"
      unfolding cosineSimilarity_def by (simp only: division_ring_divide_zero)
    then show ?thesis by simp
  next
    case False
    with d have pos: "0 < ?d" by (simp only: order.strict_iff_order) simp
    from le have "- ?d \<le> dot a b" and "dot a b \<le> ?d" by simp_all
    with pos show ?thesis
      unfolding cosineSimilarity_def
      by (simp add: pos_le_divide_eq pos_divide_le_eq)
  qed
qed

lemma ranksBefore_rankKey: "ranksBefore q a b \<longleftrightarrow> rankKey q a \<le> rankKey q b"
  by (auto simp: ranksBefore_def rankKey_def less_eq_prod_def Let_def)

lemma hits_query: "hits (VectorIndex_query q k ix) = take k (sort_key (rankKey q) ix)"
  by (simp add: hits_def VectorIndex_query_def comp_def case_prod_unfold)

lemma query_index3:
  "VectorIndex_query [1, 0] 2 index3 = [(''company_2'', entry2, 1), (''company_1'', entry1, 1)]"
  by (simp add: VectorIndex_query_def index3_def entry1_def entry2_def entry3_def rankKey_def
      cosineSimilarity_def less_eq_prod_def)

text \<open>
  Claim C5. A query for \<open>k\<close> entries returns \<open>k\<close> of them, or all when the index has
  fewer. The answers are in rank order (higher cosine similarity first, ties by the more
  recent \<^verbatim>\<open>refreshedAt\<close>, then by ascending id), and together with the entries left out
  they are the index, every answer ranking before every entry left out. Each answer
  carries its cosine similarity to the query, which lies between -1 and 1. A query
  against an empty index returns the empty sequence.
\<close>

theorem query_top_k:
  "length (VectorIndex_query q k ix) = min k (length ix)
   \<and> sorted_wrt (ranksBefore q) (hits (VectorIndex_query q k ix))
   \<and> (\<exists>rest. mset (hits (VectorIndex_query q k ix) @ rest) = mset ix
        \<and> (\<forall>a\<in>set (hits (VectorIndex_query q k ix)). \<forall>b\<in>set rest. ranksBefore q a b))
   \<and> (\<forall>(i, e, s)\<in>set (VectorIndex_query q k ix).
         s = cosineSimilarity q (embedding e) \<and> - 1 \<le> s \<and> s \<le> 1)
   \<and> VectorIndex_query q k [] = []"
proof -
  let ?L = "sort_key (rankKey q) ix"
  have srt: "sorted_wrt (ranksBefore q) ?L"
  proof -
    have "sorted (map (rankKey q) ?L)" by simp
    then show ?thesis
      by (simp add: sorted_wrt_map ranksBefore_rankKey [abs_def])
  qed
  have split: "take k ?L @ drop k ?L = ?L" by simp
  have 1: "length (VectorIndex_query q k ix) = min k (length ix)"
    by (simp add: VectorIndex_query_def min.commute)
  have 2: "sorted_wrt (ranksBefore q) (hits (VectorIndex_query q k ix))"
    unfolding hits_query using srt split by (metis sorted_wrt_append)
  have 3: "\<exists>rest. mset (hits (VectorIndex_query q k ix) @ rest) = mset ix
        \<and> (\<forall>a\<in>set (hits (VectorIndex_query q k ix)). \<forall>b\<in>set rest. ranksBefore q a b)"
  proof (intro exI conjI)
    show "mset (hits (VectorIndex_query q k ix) @ drop k ?L) = mset ix"
      unfolding hits_query split by simp
    show "\<forall>a\<in>set (hits (VectorIndex_query q k ix)). \<forall>b\<in>set (drop k ?L). ranksBefore q a b"
      unfolding hits_query using srt split by (metis sorted_wrt_append)
  qed
  have 4: "\<forall>(i, e, s)\<in>set (VectorIndex_query q k ix).
         s = cosineSimilarity q (embedding e) \<and> - 1 \<le> s \<and> s \<le> 1"
    using cosine_bounds by (auto simp: VectorIndex_query_def)
  have 5: "VectorIndex_query q k [] = []" by (simp add: VectorIndex_query_def)
  from 1 2 3 4 5 show ?thesis by blast
qed

theorem query_top_k_witness:
  "VectorIndex_query [1, 0] 2 index3 = [(''company_2'', entry2, 1), (''company_1'', entry1, 1)]
   \<and> length (VectorIndex_query [1, 0] 2 index3) = min 2 (length index3)
   \<and> ranksBefore [1, 0] (''company_2'', entry2) (''company_1'', entry1)
   \<and> mset ([(''company_2'', entry2), (''company_1'', entry1)] @ [(''company_3'', entry3)]) = mset index3
   \<and> ranksBefore [1, 0] (''company_2'', entry2) (''company_3'', entry3)
   \<and> ranksBefore [1, 0] (''company_1'', entry1) (''company_3'', entry3)
   \<and> cosineSimilarity [1, 0] (embedding entry2) = 1
   \<and> cosineSimilarity [1, 0] (embedding entry1) = 1
   \<and> cosineSimilarity [1, 0] (embedding entry3) = 0
   \<and> VectorIndex_query [1, 0] 2 [] = []"
proof -
  note t = query_top_k [of "[1, 0]" 2 index3, unfolded query_index3]
  from t have len: "length (VectorIndex_query [1, 0] 2 index3) = min 2 (length index3)"
    by (simp add: query_index3)
  from t have srt: "ranksBefore [1, 0] (''company_2'', entry2) (''company_1'', entry1)"
    by (simp add: hits_def)
  from t have sc: "cosineSimilarity [1, 0] (embedding entry2) = 1"
    "cosineSimilarity [1, 0] (embedding entry1) = 1"
    by simp_all
  from t obtain rest where
    rest: "mset ([(''company_2'', entry2), (''company_1'', entry1)] @ rest) = mset index3"
    and top: "\<forall>a\<in>set [(''company_2'', entry2), (''company_1'', entry1)]. \<forall>b\<in>set rest. ranksBefore [1, 0] a b"
    by (auto simp: hits_def)
  from rest have "mset rest = {#(''company_3'', entry3)#}"
    by (simp add: index3_def)
  then have r3: "rest = [(''company_3'', entry3)]" by simp
  from top r3 have top3: "ranksBefore [1, 0] (''company_2'', entry2) (''company_3'', entry3)"
    "ranksBefore [1, 0] (''company_1'', entry1) (''company_3'', entry3)"
    by simp_all
  from rest r3 have ms: "mset ([(''company_2'', entry2), (''company_1'', entry1)] @ [(''company_3'', entry3)]) = mset index3"
    by simp
  have z: "cosineSimilarity [1, 0] (embedding entry3) = 0"
    by (simp add: cosineSimilarity_def entry3_def)
  from t have e: "VectorIndex_query [1, 0] 2 [] = []" by simp
  from query_index3 len srt ms top3 sc z e show ?thesis by blast
qed

end
